theory Spec2Isabelle
  imports Complex_Main "HOL-Library.Word" "HOL-Library.Finite_Map"
begin

section \<open>The strategy controller of the Jaeger operator: \<open>pkg/strategy/controller.go\<close>\<close>

text \<open>
  The development embeds \<open>normalize\<close> and the functions it calls. The Go code mutates
  the Jaeger object through a pointer; here every function takes the value and returns
  the updated one. Logging and tracing have no effect on the object and are left out.
\<close>

subsection \<open>\<open>strings.EqualFold\<close>\<close>

text \<open>
  Go strings are byte sequences, as \<^typ>\<open>string\<close> is. \<open>strings.EqualFold\<close> decodes
  both arguments as UTF-8 and compares them rune by rune under simple case folding.
  Two runes outside ASCII fold onto ASCII letters: the Kelvin sign U+212A (bytes
  E2 84 AA) onto \<open>k\<close> and the long s U+017F (bytes C5 BF) onto \<open>s\<close>. \<open>foldBytes\<close>
  maps a string to a representative of its folding class: ASCII capitals and these two
  runes go to the lower-case letter, every other byte stays. The comparison of the
  representatives is exactly Go's result whenever one of the two strings is ASCII,
  which is the case at every call of the program (the second argument is a literal or
  an identifier of the storage catalog).
\<close>

definition toLower :: "char \<Rightarrow> char" where
  "toLower c =
     (let n = (of_char c :: nat) in if 65 \<le> n \<and> n \<le> 90 then char_of (n + 32) else c)"

fun foldBytes :: "string \<Rightarrow> string" where
  "foldBytes (a # b # c # cs) =
     (if a = CHR 0xE2 \<and> b = CHR 0x84 \<and> c = CHR 0xAA then CHR ''k'' # foldBytes cs
      else if a = CHR 0xC5 \<and> b = CHR 0xBF then CHR ''s'' # foldBytes (c # cs)
      else toLower a # foldBytes (b # c # cs))"
| "foldBytes [a, b] =
     (if a = CHR 0xC5 \<and> b = CHR 0xBF then [CHR ''s''] else [toLower a, toLower b])"
| "foldBytes [a] = [toLower a]"
| "foldBytes [] = []"

definition EqualFold :: "string \<Rightarrow> string \<Rightarrow> bool" where
  "EqualFold s t = (foldBytes s = foldBytes t)"

subsection \<open>The data model (package \<open>v1\<close>)\<close>

text \<open>
  The type declarations of package \<open>v1\<close> are not part of the sources at hand. The
  records hold the fields that the controller reads or writes; a field name that
  occurs in several Go structs carries a prefix here.

  \<open>DeploymentStrategy\<close> and \<open>IngressSecurityType\<close> are Go string types with named
  constants, and the controller only compares them with those constants. The
  datatypes have one constructor for each constant and one for every other string,
  the empty (unset) one included.
\<close>

datatype DeploymentStrategy =
    DeploymentStrategyDeprecatedAllInOne
  | DeploymentStrategyAllInOne
  | DeploymentStrategyStreaming
  | DeploymentStrategyProduction
  | DeploymentStrategyOther string

datatype IngressSecurityType =
    IngressSecurityNoneExplicit
  | IngressSecurityOAuthProxy
  | IngressSecurityOther string

text \<open>
  \<open>esv1.RedundancyPolicyType\<close> is a string type too; the controller tests it against
  the empty string and assigns two of its constants.
\<close>

datatype RedundancyPolicyType =
    RedundancyPolicyUnset
  | ZeroRedundancy
  | SingleRedundancy
  | RedundancyPolicyOther string

text \<open>
  \<open>corev1.ResourceRequirements\<close>: two resource lists, each a Go map from a resource
  name to a quantity. A quantity is kept as the text that \<open>resource.MustParse\<close> reads.
\<close>

datatype ResourceName = ResourceCPU | ResourceMemory | ResourceOther string

type_synonym Quantity = string

type_synonym ResourceList = "(ResourceName, Quantity) fmap"

record ResourceRequirements =
  Limits :: ResourceList
  Requests :: ResourceList

definition defaultEsMemory :: Quantity where
  "defaultEsMemory = ''16Gi''"

definition defaultEsCPURequest :: Quantity where
  "defaultEsCPURequest = ''1''"

text \<open>
  A value of a free-form option table: what \<open>encoding/json\<close> decodes into
  \<open>interface{}\<close>. Numbers are never inspected by the controller.
\<close>

datatype uival =
    UNull
  | UBool bool
  | UNumber rat
  | UString string
  | UArray "uival list"
  | UMap "(string, uival) fmap"

type_synonym uimap = "(string, uival) fmap"

text \<open>
  Modelled from the spec: \<open>v1.FreeForm\<close> is not among the sources. The spec has the UI
  option table loaded from the existing user options, or an empty table if there are
  none or they are malformed. \<open>FreeFormEmpty\<close> is the value with no content
  (\<open>IsEmpty\<close>), \<open>FreeFormMalformed\<close> holds content that \<open>GetMap\<close> fails to decode as a
  table, \<open>FreeFormMap\<close> content that decodes to the given table. \<open>NewFreeForm\<close> encodes
  a table.
\<close>

datatype FreeForm =
    FreeFormEmpty
  | FreeFormMalformed string
  | FreeFormMap uimap

fun IsEmpty :: "FreeForm \<Rightarrow> bool" where
  "IsEmpty FreeFormEmpty = True"
| "IsEmpty _ = False"

fun GetMap :: "FreeForm \<Rightarrow> string + uimap" where
  "GetMap (FreeFormMap m) = Inr m"
| "GetMap (FreeFormMalformed raw) = Inl raw"
| "GetMap FreeFormEmpty = Inl []"

definition NewFreeForm :: "uimap \<Rightarrow> FreeForm" where
  "NewFreeForm m = FreeFormMap m"

text \<open>
  Modelled from the spec: \<open>v1.Options\<close> is not among the sources. The spec calls it a
  free-form string-keyed option table; \<open>Map()\<close> gives the Go map from option name to
  value. Reading a Go map at a missing key gives the empty string (\<open>mapGet\<close>).
\<close>

type_synonym Options = "(string, string) fmap"

definition Map_of_Options :: "Options \<Rightarrow> (string, string) fmap" where
  "Map_of_Options opts = opts"

definition mapGet :: "(string, string) fmap \<Rightarrow> string \<Rightarrow> string" where
  "mapGet m k = (case fmlookup m k of None \<Rightarrow> [] | Some v \<Rightarrow> v)"

record JaegerDependenciesSpec =
  dep_Enabled :: "bool option"
  dep_Image :: string
  dep_Schedule :: string

record JaegerEsIndexCleanerSpec =
  ic_Enabled :: "bool option"
  ic_Image :: string
  ic_Schedule :: string
  ic_NumberOfDays :: "int option"

record ElasticsearchSpec =
  NodeCount :: "32 word"
  RedundancyPolicy :: RedundancyPolicyType
  Resources :: "ResourceRequirements option"

record JaegerEsRolloverSpec =
  ro_Image :: string
  ro_Schedule :: string

record JaegerStorageSpec =
  Type :: string
  Options :: Options
  Dependencies :: JaegerDependenciesSpec
  EsIndexCleaner :: JaegerEsIndexCleanerSpec
  Elasticsearch :: ElasticsearchSpec
  EsRollover :: JaegerEsRolloverSpec

record JaegerIngressSpec =
  ing_Enabled :: "bool option"
  Security :: IngressSecurityType

record JaegerUISpec =
  ui_Options :: FreeForm

record JaegerSpec =
  Strategy :: DeploymentStrategy
  Storage :: JaegerStorageSpec
  Ingress :: JaegerIngressSpec
  UI :: JaegerUISpec

record Jaeger =
  Name :: string
  Spec :: JaegerSpec

subsection \<open>Process configuration and collaborators outside the sources\<close>

text \<open>
  The controller reads the process configuration through \<open>viper.GetString\<close> and calls
  four functions of other packages of the repository that are not among the sources.
  They are parameters of the model:
  \<^item> \<open>viper\<close>: the configured string of a key (empty when unset);
  \<^item> \<open>FlagPlatformOpenShift\<close>: the constant of package \<open>v1\<close> naming the OpenShift platform;
  \<^item> \<open>ValidTypes\<close>: \<open>storage.ValidTypes()\<close>, the storage catalog;
  \<^item> \<open>SupportedStorage\<close>: \<open>cronjob.SupportedStorage\<close>;
  \<^item> \<open>ShouldDeployElasticsearch\<close>: \<open>storage.ShouldDeployElasticsearch\<close>, which receives
    a copy of the storage section;
  \<^item> \<open>ImageDefault\<close>: the image reference that \<open>util.ImageName\<close> computes from the
    configuration for a parameter name;
  \<^item> \<open>decodeMenu\<close>: see \<open>menuArray\<close> below.
\<close>

record env =
  viper :: "string \<Rightarrow> string"
  FlagPlatformOpenShift :: string
  ValidTypes :: "string list"
  SupportedStorage :: "string \<Rightarrow> bool"
  ShouldDeployElasticsearch :: "JaegerStorageSpec \<Rightarrow> bool"
  ImageDefault :: "string \<Rightarrow> string"
  decodeMenu :: "string \<Rightarrow> uival"

text \<open>
  Modelled from the spec: \<open>util.ImageName\<close> is not among the sources. The spec has the
  image resolver map a component to an image reference, using a configured default
  when the reference is unset.
\<close>

definition ImageName :: "env \<Rightarrow> string \<Rightarrow> string \<Rightarrow> string" where
  "ImageName e img param = (if img = [] then ImageDefault e param else img)"

subsection \<open>The storage catalog\<close>

fun unknownStorage :: "string list \<Rightarrow> string \<Rightarrow> bool" where
  "unknownStorage [] typ = True"
| "unknownStorage (k # ks) typ = (if EqualFold typ k then False else unknownStorage ks typ)"

definition distributedStorage :: "string \<Rightarrow> bool" where
  "distributedStorage storage =
     (\<not> EqualFold storage ''memory'' \<and> \<not> EqualFold storage ''badger'')"

subsection \<open>The sub-normalizers\<close>

definition tlsIsNotEnabled :: "JaegerStorageSpec \<Rightarrow> bool" where
  "tlsIsNotEnabled spec =
     (let sFlagsMap = Map_of_Options (Options spec);
          tlsEnabled = mapGet sFlagsMap ''es.tls'';
          tlsSkipHost = mapGet sFlagsMap ''es.tls.skip-host-verify'';
          tlsCa = mapGet sFlagsMap ''es.tls.ca''
      in \<not> EqualFold tlsEnabled ''true'' \<and> \<not> EqualFold tlsSkipHost ''true''
         \<and> EqualFold tlsCa [])"

definition normalizeSparkDependencies :: "env \<Rightarrow> JaegerStorageSpec \<Rightarrow> JaegerStorageSpec" where
  "normalizeSparkDependencies e spec =
     (let d0 = Dependencies spec;
          d1 = (if SupportedStorage e (Type spec) \<and> dep_Enabled d0 = None
                   \<and> \<not> ShouldDeployElasticsearch e spec \<and> tlsIsNotEnabled spec
                then d0\<lparr>dep_Enabled := Some True\<rparr> else d0);
          d2 = (if dep_Image d1 = []
                then d1\<lparr>dep_Image := viper e ''jaeger-spark-dependencies-image''\<rparr> else d1);
          d3 = (if dep_Schedule d2 = [] then d2\<lparr>dep_Schedule := ''55 23 * * *''\<rparr> else d2)
      in spec\<lparr>Dependencies := d3\<rparr>)"

definition normalizeIndexCleaner ::
  "env \<Rightarrow> JaegerEsIndexCleanerSpec \<Rightarrow> string \<Rightarrow> JaegerEsIndexCleanerSpec" where
  "normalizeIndexCleaner e spec storage =
     (let s1 = (if storage = ''elasticsearch'' \<and> ic_Enabled spec = None
                then spec\<lparr>ic_Enabled := Some True\<rparr> else spec);
          s2 = s1\<lparr>ic_Image := ImageName e (ic_Image s1) ''jaeger-es-index-cleaner-image''\<rparr>;
          s3 = (if ic_Schedule s2 = [] then s2\<lparr>ic_Schedule := ''55 23 * * *''\<rparr> else s2)
      in if ic_NumberOfDays s3 = None then s3\<lparr>ic_NumberOfDays := Some 7\<rparr> else s3)"

definition defaultEsResources :: ResourceRequirements where
  "defaultEsResources =
     \<lparr>Limits = fmupd ResourceMemory defaultEsMemory fmempty,
      Requests = fmupd ResourceCPU defaultEsCPURequest
                   (fmupd ResourceMemory defaultEsMemory fmempty)\<rparr>"

definition normalizeElasticsearch :: "ElasticsearchSpec \<Rightarrow> ElasticsearchSpec" where
  "normalizeElasticsearch spec =
     (let s1 = (if NodeCount spec = 0 then spec\<lparr>NodeCount := 3\<rparr> else spec);
          s2 = (if RedundancyPolicy s1 = RedundancyPolicyUnset
                then (if NodeCount s1 = 1 then s1\<lparr>RedundancyPolicy := ZeroRedundancy\<rparr>
                      else s1\<lparr>RedundancyPolicy := SingleRedundancy\<rparr>)
                else s1)
      in if Resources s2 = None then s2\<lparr>Resources := Some defaultEsResources\<rparr> else s2)"

definition normalizeRollover :: "env \<Rightarrow> JaegerEsRolloverSpec \<Rightarrow> JaegerEsRolloverSpec" where
  "normalizeRollover e spec =
     (let s1 = spec\<lparr>ro_Image := ImageName e (ro_Image spec) ''jaeger-es-rollover-image''\<rparr>
      in if ro_Schedule s1 = [] then s1\<lparr>ro_Schedule := ''*/30 * * * *''\<rparr> else s1)"

subsection \<open>The UI options\<close>

definition enableArchiveButton :: "uimap \<Rightarrow> (string, string) fmap \<Rightarrow> uimap" where
  "enableArchiveButton uiOpts sOpts =
     (if fmlookup uiOpts ''archiveEnabled'' = None
      then (if EqualFold (mapGet sOpts ''es-archive.enabled'') ''true''
               \<or> EqualFold (mapGet sOpts ''cassandra-archive.enabled'') ''true''
            then fmupd ''archiveEnabled'' (UBool True) uiOpts else uiOpts)
      else uiOpts)"

text \<open>
  \<open>setMenuEnabled\<close> is the tail of \<open>disableDependenciesTab\<close>, reached with \<open>deps\<close> either
  the empty table or the table stored under \<open>dependencies\<close>. The Go code writes into
  that nested table in place and stores it back; no other reference to it exists.
\<close>

definition setMenuEnabled :: "uimap \<Rightarrow> uimap \<Rightarrow> uimap" where
  "setMenuEnabled uiOpts deps =
     (if fmlookup deps ''menuEnabled'' = None
      then fmupd ''dependencies'' (UMap (fmupd ''menuEnabled'' (UBool False) deps)) uiOpts
      else uiOpts)"

definition disableDependenciesTab :: "uimap \<Rightarrow> string \<Rightarrow> bool option \<Rightarrow> uimap" where
  "disableDependenciesTab uiOpts storage depsEnabled =
     (if EqualFold storage ''memory'' \<or> depsEnabled = Some True then uiOpts
      else (case fmlookup uiOpts ''dependencies'' of
              None \<Rightarrow> setMenuEnabled uiOpts fmempty
            | Some (UMap val) \<Rightarrow> setMenuEnabled uiOpts val
            | Some _ \<Rightarrow> uiOpts))"

text \<open>
  \<open>enableLogOut\<close> substitutes the documentation URL into a JSON text with \<open>%s\<close>, decodes
  the text with \<open>json.Unmarshal\<close> into a slice made with two nil entries, and drops
  the decoder's error.
  \<^item> A URL of plain characters (ASCII from the space on, without the double quote and
    the backslash) stands for itself inside a JSON string: the text decodes to the
    two entries written in the template.
  \<^item> A URL without double quote and backslash that has a control character (below
    the space) leaves that character inside the JSON string, which the decoder
    rejects before it stores anything: the slice keeps its two nil entries.
  \<^item> For every other URL (a quote or backslash changes the structure of the text,
    bytes outside ASCII are re-read as UTF-8) the result is what the decoder makes of
    the text, the parameter \<open>decodeMenu\<close>.
\<close>

definition jsonPlain :: "char \<Rightarrow> bool" where
  "jsonPlain c = (32 \<le> (of_char c :: nat) \<and> (of_char c :: nat) < 128
                  \<and> c \<noteq> CHR 0x22 \<and> c \<noteq> CHR 0x5C)"

definition jsonControl :: "char \<Rightarrow> bool" where
  "jsonControl c = ((of_char c :: nat) < 32)"

definition menuAbout :: "string \<Rightarrow> uival" where
  "menuAbout docURL =
     UMap (fmap_of_list
       [(''label'', UString ''About''),
        (''items'', UArray [UMap (fmap_of_list
           [(''label'', UString ''Documentation''), (''url'', UString docURL)])])])"

definition menuLogOut :: uival where
  "menuLogOut =
     UMap (fmap_of_list
       [(''label'', UString ''Log Out''),
        (''url'', UString ''/oauth/sign_in''),
        (''anchorTarget'', UString ''_self'')])"

definition menuArray :: "env \<Rightarrow> string \<Rightarrow> uival" where
  "menuArray e docURL =
     (if list_all jsonPlain docURL then UArray [menuAbout docURL, menuLogOut]
      else if list_all (\<lambda>c. c \<noteq> CHR 0x22 \<and> c \<noteq> CHR 0x5C) docURL \<and> list_ex jsonControl docURL
      then UArray [UNull, UNull]
      else decodeMenu e docURL)"

definition enableLogOut :: "env \<Rightarrow> uimap \<Rightarrow> JaegerSpec \<Rightarrow> uimap" where
  "enableLogOut e uiOpts spec =
     (if ing_Enabled (Ingress spec) = Some False
         \<or> Security (Ingress spec) \<noteq> IngressSecurityOAuthProxy then uiOpts
      else if fmlookup uiOpts ''menu'' \<noteq> None then uiOpts
      else fmupd ''menu'' (menuArray e (viper e ''documentation-url'')) uiOpts)"

definition loadUIOptions :: "JaegerSpec \<Rightarrow> uimap" where
  "loadUIOptions spec =
     (if \<not> IsEmpty (ui_Options (UI spec))
      then (case GetMap (ui_Options (UI spec)) of Inr m \<Rightarrow> m | Inl err \<Rightarrow> fmempty)
      else fmempty)"

definition deriveUIOptions :: "env \<Rightarrow> JaegerSpec \<Rightarrow> uimap" where
  "deriveUIOptions e spec =
     enableLogOut e
       (disableDependenciesTab
          (enableArchiveButton (loadUIOptions spec) (Map_of_Options (Options (Storage spec))))
          (Type (Storage spec)) (dep_Enabled (Dependencies (Storage spec))))
       spec"

definition normalizeUI :: "env \<Rightarrow> JaegerSpec \<Rightarrow> JaegerSpec" where
  "normalizeUI e spec =
     (let uiOpts = deriveUIOptions e spec
      in if uiOpts \<noteq> fmempty then spec\<lparr>UI := (UI spec)\<lparr>ui_Options := NewFreeForm uiOpts\<rparr>\<rparr>
         else spec)"

subsection \<open>\<open>normalize\<close>\<close>

definition normalizeName :: "Jaeger \<Rightarrow> Jaeger" where
  "normalizeName jaeger = (if Name jaeger = [] then jaeger\<lparr>Name := ''my-jaeger''\<rparr> else jaeger)"

definition normalizeStorageType :: "env \<Rightarrow> string \<Rightarrow> string" where
  "normalizeStorageType e typ =
     (let t1 = (if typ = [] then ''memory'' else typ)
      in if unknownStorage (ValidTypes e) t1 then ''memory'' else t1)"

definition normalizeStrategy :: "string \<Rightarrow> DeploymentStrategy \<Rightarrow> DeploymentStrategy" where
  "normalizeStrategy typ strategy =
     (let s1 = (if strategy \<noteq> DeploymentStrategyProduction \<and> strategy \<noteq> DeploymentStrategyStreaming
                then DeploymentStrategyAllInOne else strategy)
      in if \<not> distributedStorage typ \<and> s1 \<noteq> DeploymentStrategyAllInOne
         then DeploymentStrategyAllInOne else s1)"

definition normalizeSecurity :: "env \<Rightarrow> IngressSecurityType \<Rightarrow> IngressSecurityType" where
  "normalizeSecurity e security =
     (if viper e ''platform'' = FlagPlatformOpenShift e \<and> security \<noteq> IngressSecurityNoneExplicit
      then IngressSecurityOAuthProxy else IngressSecurityNoneExplicit)"

definition normalizeSpec :: "env \<Rightarrow> JaegerSpec \<Rightarrow> JaegerSpec" where
  "normalizeSpec e spec =
     (let typ = normalizeStorageType e (Type (Storage spec));
          st0 = (Storage spec)\<lparr>Type := typ\<rparr>;
          sp1 = spec\<lparr>Storage := st0,
                     Strategy := normalizeStrategy typ (Strategy spec),
                     Ingress := (Ingress spec)\<lparr>Security := normalizeSecurity e (Security (Ingress spec))\<rparr>\<rparr>;
          st1 = normalizeSparkDependencies e (Storage sp1);
          st2 = st1\<lparr>EsIndexCleaner := normalizeIndexCleaner e (EsIndexCleaner st1) (Type st1)\<rparr>;
          st3 = st2\<lparr>Elasticsearch := normalizeElasticsearch (Elasticsearch st2)\<rparr>;
          st4 = st3\<lparr>EsRollover := normalizeRollover e (EsRollover st3)\<rparr>
      in normalizeUI e (sp1\<lparr>Storage := st4\<rparr>))"

definition normalize :: "env \<Rightarrow> Jaeger \<Rightarrow> Jaeger" where
  "normalize e jaeger =
     (let j1 = normalizeName jaeger in j1\<lparr>Spec := normalizeSpec e (Spec j1)\<rparr>)"

subsection \<open>A configuration and inputs to run the model on\<close>

text \<open>
  \<open>exampleEnv\<close> is a process on OpenShift with the catalog of five backends; the
  dependencies job is supported on Elasticsearch and Cassandra, and an Elasticsearch
  cluster is deployed when the type is Elasticsearch and no server URL is given.
  \<open>emptyJaeger\<close> is the Jaeger object with every field at its Go zero value.
\<close>

definition exampleViper :: "string \<Rightarrow> string" where
  "exampleViper k =
     (if k = ''platform'' then ''openshift''
      else if k = ''documentation-url'' then ''https://www.jaegertracing.io/docs/latest''
      else if k = ''jaeger-spark-dependencies-image'' then ''jaegertracing/spark-dependencies''
      else [])"

definition exampleEnv :: env where
  "exampleEnv =
     \<lparr>viper = exampleViper,
      FlagPlatformOpenShift = ''openshift'',
      ValidTypes = [''memory'', ''cassandra'', ''elasticsearch'', ''kafka'', ''badger''],
      SupportedStorage = (\<lambda>t. EqualFold t ''elasticsearch'' \<or> EqualFold t ''cassandra''),
      ShouldDeployElasticsearch =
        (\<lambda>s. EqualFold (Type s) ''elasticsearch''
              \<and> fmlookup (Options s) ''es.server-urls'' = None),
      ImageDefault = (\<lambda>param. param @ '':latest''),
      decodeMenu = (\<lambda>docURL. UArray [UNull, UNull])\<rparr>"

definition emptyJaeger :: Jaeger where
  "emptyJaeger =
     \<lparr>Name = [],
      Spec = \<lparr>Strategy = DeploymentStrategyOther [],
              Storage = \<lparr>Type = [], Options = fmempty,
                Dependencies = \<lparr>dep_Enabled = None, dep_Image = [], dep_Schedule = []\<rparr>,
                EsIndexCleaner = \<lparr>ic_Enabled = None, ic_Image = [], ic_Schedule = [],
                                  ic_NumberOfDays = None\<rparr>,
                Elasticsearch = \<lparr>NodeCount = 0, RedundancyPolicy = RedundancyPolicyUnset,
                                 Resources = None\<rparr>,
                EsRollover = \<lparr>ro_Image = [], ro_Schedule = []\<rparr>\<rparr>,
              Ingress = \<lparr>ing_Enabled = None, Security = IngressSecurityOther []\<rparr>,
              UI = \<lparr>ui_Options = FreeFormEmpty\<rparr>\<rparr>\<rparr>"

definition jaegerOf :: "string \<Rightarrow> DeploymentStrategy \<Rightarrow> Jaeger" where
  "jaegerOf typ strategy =
     emptyJaeger\<lparr>Spec := (Spec emptyJaeger)
       \<lparr>Strategy := strategy, Storage := (Storage (Spec emptyJaeger))\<lparr>Type := typ\<rparr>\<rparr>\<rparr>"

text \<open>
  A Jaeger object on Elasticsearch with the archive storage on, whose UI options set
  the three derived keys themselves.
\<close>

definition explicitUIOptions :: uimap where
  "explicitUIOptions =
     fmap_of_list
       [(''archiveEnabled'', UBool False),
        (''dependencies'', UMap (fmap_of_list [(''menuEnabled'', UBool True)])),
        (''menu'', UArray [])]"

definition explicitUIJaeger :: Jaeger where
  "explicitUIJaeger =
     emptyJaeger\<lparr>Spec := (Spec emptyJaeger)
       \<lparr>Strategy := DeploymentStrategyProduction,
        Storage := (Storage (Spec emptyJaeger))
          \<lparr>Type := ''elasticsearch'',
           Options := fmap_of_list [(''es-archive.enabled'', ''true'')]\<rparr>,
        UI := \<lparr>ui_Options = FreeFormMap explicitUIOptions\<rparr>\<rparr>\<rparr>"

text \<open>The same process with a documentation URL that ends in a line feed.\<close>

definition lineFeedURL :: string where
  "lineFeedURL = ''https://www.jaegertracing.io/docs/latest'' @ [CHR 0x0A]"

definition lineFeedEnv :: env where
  "lineFeedEnv =
     exampleEnv\<lparr>viper := (\<lambda>k. if k = ''documentation-url'' then lineFeedURL
                              else exampleViper k)\<rparr>"

section \<open>Properties\<close>

subsection \<open>Case folding and the catalog\<close>

lemma EqualFold_refl: "EqualFold s s"
  by (simp add: EqualFold_def)

lemma EqualFold_Nil: "EqualFold s [] \<longleftrightarrow> s = []"
  by (cases s rule: foldBytes.cases) (auto simp: EqualFold_def)

lemma unknownStorage_iff: "unknownStorage ks typ \<longleftrightarrow> (\<forall>k \<in> set ks. \<not> EqualFold typ k)"
  by (induction ks) auto

lemma EqualFold_catalog:
  "k \<in> set ks \<Longrightarrow> EqualFold typ k \<Longrightarrow> \<not> unknownStorage ks typ"
  by (auto simp: unknownStorage_iff)

lemma fmupd_not_empty: "fmupd k v m \<noteq> fmempty"
proof
  assume "fmupd k v m = fmempty"
  then have "fmlookup (fmupd k v m) k = fmlookup fmempty k" by simp
  then show False by simp
qed

subsection \<open>What each stage leaves alone\<close>

lemma normalizeUI_Storage: "Storage (normalizeUI e spec) = Storage spec"
  by (simp add: normalizeUI_def Let_def)

lemma normalizeUI_Strategy: "Strategy (normalizeUI e spec) = Strategy spec"
  by (simp add: normalizeUI_def Let_def)

lemma normalizeUI_Ingress: "Ingress (normalizeUI e spec) = Ingress spec"
  by (simp add: normalizeUI_def Let_def)

lemma normalizeName_Spec: "Spec (normalizeName jaeger) = Spec jaeger"
  by (simp add: normalizeName_def)

lemma normalize_Spec: "Spec (normalize e jaeger) = normalizeSpec e (Spec jaeger)"
  by (simp add: normalize_def Let_def normalizeName_Spec)

lemma normalizeSpark_Type: "Type (normalizeSparkDependencies e st) = Type st"
  by (simp add: normalizeSparkDependencies_def Let_def)

lemma normalizeSpark_Options: "Options (normalizeSparkDependencies e st) = Options st"
  by (simp add: normalizeSparkDependencies_def Let_def)

lemma normalizeSpark_EsIndexCleaner:
  "EsIndexCleaner (normalizeSparkDependencies e st) = EsIndexCleaner st"
  by (simp add: normalizeSparkDependencies_def Let_def)

lemma normalizeSpark_Elasticsearch:
  "Elasticsearch (normalizeSparkDependencies e st) = Elasticsearch st"
  by (simp add: normalizeSparkDependencies_def Let_def)

lemma normalizeSpark_EsRollover: "EsRollover (normalizeSparkDependencies e st) = EsRollover st"
  by (simp add: normalizeSparkDependencies_def Let_def)

lemmas normalizeSpark_frame = normalizeSpark_Type normalizeSpark_Options
  normalizeSpark_EsIndexCleaner normalizeSpark_Elasticsearch normalizeSpark_EsRollover

subsection \<open>The fields of the normalized specification\<close>

lemma normalizeSpec_Type:
  "Type (Storage (normalizeSpec e spec)) = normalizeStorageType e (Type (Storage spec))"
  by (simp add: normalizeSpec_def Let_def normalizeUI_Storage normalizeSpark_frame)

lemma normalizeSpec_Options:
  "Options (Storage (normalizeSpec e spec)) = Options (Storage spec)"
  by (simp add: normalizeSpec_def Let_def normalizeUI_Storage normalizeSpark_frame)

lemma normalizeSpec_Strategy:
  "Strategy (normalizeSpec e spec) =
     normalizeStrategy (normalizeStorageType e (Type (Storage spec))) (Strategy spec)"
  by (simp add: normalizeSpec_def Let_def normalizeUI_Strategy)

lemma normalizeSpec_Ingress:
  "Ingress (normalizeSpec e spec) =
     (Ingress spec)\<lparr>Security := normalizeSecurity e (Security (Ingress spec))\<rparr>"
  by (simp add: normalizeSpec_def Let_def normalizeUI_Ingress)

lemma normalizeSpec_Dependencies:
  "Dependencies (Storage (normalizeSpec e spec)) =
     Dependencies (normalizeSparkDependencies e
       ((Storage spec)\<lparr>Type := normalizeStorageType e (Type (Storage spec))\<rparr>))"
  by (simp add: normalizeSpec_def Let_def normalizeUI_Storage)

lemma normalizeSpec_EsIndexCleaner:
  "EsIndexCleaner (Storage (normalizeSpec e spec)) =
     normalizeIndexCleaner e (EsIndexCleaner (Storage spec))
       (normalizeStorageType e (Type (Storage spec)))"
  by (simp add: normalizeSpec_def Let_def normalizeUI_Storage normalizeSpark_frame)

lemma normalizeSpec_Elasticsearch:
  "Elasticsearch (Storage (normalizeSpec e spec)) =
     normalizeElasticsearch (Elasticsearch (Storage spec))"
  by (simp add: normalizeSpec_def Let_def normalizeUI_Storage normalizeSpark_frame)

lemma normalizeSpec_EsRollover:
  "EsRollover (Storage (normalizeSpec e spec)) = normalizeRollover e (EsRollover (Storage spec))"
  by (simp add: normalizeSpec_def Let_def normalizeUI_Storage normalizeSpark_frame)

lemma normalizeStorageType_cases:
  "normalizeStorageType e typ =
     (if typ = [] \<or> unknownStorage (ValidTypes e) typ then ''memory'' else typ)"
  by (simp add: normalizeStorageType_def Let_def)

lemma normalizeStrategy_non_distributed:
  "\<not> distributedStorage typ \<Longrightarrow> normalizeStrategy typ s = DeploymentStrategyAllInOne"
  by (simp add: normalizeStrategy_def Let_def)

lemma normalizeIndexCleaner_Enabled:
  "ic_Enabled (normalizeIndexCleaner e spec storage) =
     (if storage = ''elasticsearch'' \<and> ic_Enabled spec = None then Some True else ic_Enabled spec)"
  by (simp add: normalizeIndexCleaner_def Let_def)

subsection \<open>The UI option table\<close>

lemma lookup_enableArchiveButton:
  "fmlookup (enableArchiveButton uiOpts sOpts) k =
     (if k = ''archiveEnabled'' \<and> fmlookup uiOpts ''archiveEnabled'' = None
         \<and> (EqualFold (mapGet sOpts ''es-archive.enabled'') ''true''
              \<or> EqualFold (mapGet sOpts ''cassandra-archive.enabled'') ''true'')
      then Some (UBool True) else fmlookup uiOpts k)"
  by (auto simp: enableArchiveButton_def)

lemma lookup_setMenuEnabled_other:
  "k \<noteq> ''dependencies'' \<Longrightarrow> fmlookup (setMenuEnabled uiOpts deps) k = fmlookup uiOpts k"
  by (simp add: setMenuEnabled_def)

lemma lookup_disableDependenciesTab_other:
  "k \<noteq> ''dependencies'' \<Longrightarrow>
     fmlookup (disableDependenciesTab uiOpts storage depsEnabled) k = fmlookup uiOpts k"
  by (simp add: disableDependenciesTab_def lookup_setMenuEnabled_other
      split: option.split uival.split)

lemma lookup_disableDependenciesTab:
  "fmlookup (disableDependenciesTab uiOpts storage depsEnabled) ''dependencies'' =
     (case fmlookup uiOpts ''dependencies'' of
        None \<Rightarrow> if EqualFold storage ''memory'' \<or> depsEnabled = Some True then None
                else Some (UMap (fmupd ''menuEnabled'' (UBool False) fmempty))
      | Some (UMap deps) \<Rightarrow>
          if fmlookup deps ''menuEnabled'' = None
             \<and> \<not> (EqualFold storage ''memory'' \<or> depsEnabled = Some True)
          then Some (UMap (fmupd ''menuEnabled'' (UBool False) deps)) else Some (UMap deps)
      | Some v \<Rightarrow> Some v)"
  by (simp add: disableDependenciesTab_def setMenuEnabled_def split: option.split uival.split)

lemma lookup_enableLogOut:
  "fmlookup (enableLogOut e uiOpts spec) k =
     (if k = ''menu'' \<and> fmlookup uiOpts ''menu'' = None
         \<and> ing_Enabled (Ingress spec) \<noteq> Some False
         \<and> Security (Ingress spec) = IngressSecurityOAuthProxy
      then Some (menuArray e (viper e ''documentation-url'')) else fmlookup uiOpts k)"
  by (auto simp: enableLogOut_def)

lemma enableArchiveButton_empty: "enableArchiveButton uiOpts sOpts = fmempty \<Longrightarrow> uiOpts = fmempty"
  by (auto simp: enableArchiveButton_def fmupd_not_empty split: if_splits)

lemma disableDependenciesTab_empty:
  "disableDependenciesTab uiOpts storage depsEnabled = fmempty \<Longrightarrow> uiOpts = fmempty"
  by (auto simp: disableDependenciesTab_def setMenuEnabled_def fmupd_not_empty
      split: if_splits option.splits uival.splits)

lemma enableLogOut_empty: "enableLogOut e uiOpts spec = fmempty \<Longrightarrow> uiOpts = fmempty"
  by (auto simp: enableLogOut_def fmupd_not_empty split: if_splits)

lemma deriveUIOptions_empty: "deriveUIOptions e spec = fmempty \<Longrightarrow> loadUIOptions spec = fmempty"
  unfolding deriveUIOptions_def
  by (blast dest: enableLogOut_empty disableDependenciesTab_empty enableArchiveButton_empty)

text \<open>Reading the options that \<open>normalizeUI\<close> stored gives back the derived table.\<close>

lemma loadUIOptions_normalizeUI: "loadUIOptions (normalizeUI e spec) = deriveUIOptions e spec"
proof (cases "deriveUIOptions e spec = fmempty")
  case True
  then show ?thesis using deriveUIOptions_empty[OF True] by (simp add: normalizeUI_def)
next
  case False
  then show ?thesis by (simp add: normalizeUI_def loadUIOptions_def NewFreeForm_def)
qed

lemma loadUIOptions_cong: "UI a = UI b \<Longrightarrow> loadUIOptions a = loadUIOptions b"
  by (simp add: loadUIOptions_def)

lemma enableLogOut_cong: "Ingress a = Ingress b \<Longrightarrow> enableLogOut e u a = enableLogOut e u b"
  by (simp add: enableLogOut_def)

text \<open>
  The UI table after normalization, from the table before it and the resolved storage
  type, dependencies flag and ingress section.
\<close>

lemma loadUIOptions_normalizeSpec:
  "loadUIOptions (normalizeSpec e spec) =
     enableLogOut e
       (disableDependenciesTab
          (enableArchiveButton (loadUIOptions spec) (Map_of_Options (Options (Storage spec))))
          (Type (Storage (normalizeSpec e spec)))
          (dep_Enabled (Dependencies (Storage (normalizeSpec e spec)))))
       (normalizeSpec e spec)"
proof -
  obtain P where P: "normalizeSpec e spec = normalizeUI e P" and ui: "UI P = UI spec"
    and opts: "Options (Storage P) = Options (Storage spec)"
    by (simp add: normalizeSpec_def Let_def normalizeSpark_frame)
  have "loadUIOptions (normalizeSpec e spec) = deriveUIOptions e P"
    by (simp add: P loadUIOptions_normalizeUI)
  also have "\<dots> = enableLogOut e
       (disableDependenciesTab
          (enableArchiveButton (loadUIOptions spec) (Map_of_Options (Options (Storage spec))))
          (Type (Storage P)) (dep_Enabled (Dependencies (Storage P)))) P"
    by (simp add: deriveUIOptions_def loadUIOptions_cong[OF ui] opts)
  also have "\<dots> = enableLogOut e
       (disableDependenciesTab
          (enableArchiveButton (loadUIOptions spec) (Map_of_Options (Options (Storage spec))))
          (Type (Storage P)) (dep_Enabled (Dependencies (Storage P)))) (normalizeSpec e spec)"
    by (rule enableLogOut_cong) (simp add: P normalizeUI_Ingress)
  finally show ?thesis by (simp add: P normalizeUI_Storage)
qed

section \<open>The claims\<close>

text \<open>
  Claim C2. Whenever the storage type that normalization settles on is not a distributed
  backend (it folds to \<open>memory\<close> or \<open>badger\<close>), the resolved strategy is AllInOne,
  whatever strategy was requested. In particular this holds for every input whose storage
  type is the in-memory backend.
\<close>

theorem non_distributed_storage_forces_AllInOne:
  "(\<not> distributedStorage (Type (Storage (Spec (normalize e jaeger))))
      \<longrightarrow> Strategy (Spec (normalize e jaeger)) = DeploymentStrategyAllInOne)
   \<and> (EqualFold (Type (Storage (Spec jaeger))) ''memory''
      \<longrightarrow> Strategy (Spec (normalize e jaeger)) = DeploymentStrategyAllInOne)"
proof (intro conjI impI)
  assume "\<not> distributedStorage (Type (Storage (Spec (normalize e jaeger))))"
  then show "Strategy (Spec (normalize e jaeger)) = DeploymentStrategyAllInOne"
    by (simp add: normalize_Spec normalizeSpec_Type normalizeSpec_Strategy
        normalizeStrategy_non_distributed)
next
  assume m: "EqualFold (Type (Storage (Spec jaeger))) ''memory''"
  have "EqualFold (normalizeStorageType e (Type (Storage (Spec jaeger)))) ''memory''"
    using m by (simp add: normalizeStorageType_cases EqualFold_refl)
  then have "\<not> distributedStorage (normalizeStorageType e (Type (Storage (Spec jaeger))))"
    by (simp add: distributedStorage_def)
  then show "Strategy (Spec (normalize e jaeger)) = DeploymentStrategyAllInOne"
    by (simp add: normalize_Spec normalizeSpec_Strategy normalizeStrategy_non_distributed)
qed

theorem non_distributed_storage_forces_AllInOne_witness:
  "\<not> distributedStorage
       (Type (Storage (Spec (normalize exampleEnv (jaegerOf ''Memory'' DeploymentStrategyProduction)))))
   \<and> EqualFold (Type (Storage (Spec (jaegerOf ''Memory'' DeploymentStrategyProduction)))) ''memory''
   \<and> Strategy (Spec (normalize exampleEnv (jaegerOf ''Memory'' DeploymentStrategyProduction)))
       = DeploymentStrategyAllInOne"
proof -
  have h1: "\<not> distributedStorage
      (Type (Storage (Spec (normalize exampleEnv (jaegerOf ''Memory'' DeploymentStrategyProduction)))))"
    by code_simp
  have h2: "EqualFold (Type (Storage (Spec (jaegerOf ''Memory'' DeploymentStrategyProduction)))) ''memory''"
    by code_simp
  from h1 h2
    non_distributed_storage_forces_AllInOne
      [of exampleEnv "jaegerOf ''Memory'' DeploymentStrategyProduction"]
  show ?thesis by blast
qed

text \<open>
  Claim C3. An empty storage type, and one that matches no entry of the storage catalog
  under case folding, becomes \<open>memory\<close>; a non-empty type that matches an entry is left
  as it was given.
\<close>

theorem storage_type_fallback:
  "Type (Storage (Spec (normalize e jaeger))) =
     (if Type (Storage (Spec jaeger)) = []
         \<or> unknownStorage (ValidTypes e) (Type (Storage (Spec jaeger)))
      then ''memory'' else Type (Storage (Spec jaeger)))"
  by (simp only: normalize_Spec normalizeSpec_Type normalizeStorageType_cases)

theorem storage_type_fallback_witness:
  "Type (Storage (Spec (normalize exampleEnv (jaegerOf ''postgres'' DeploymentStrategyProduction))))
     = ''memory''
   \<and> Type (Storage (Spec (normalize exampleEnv (jaegerOf ''Kafka'' DeploymentStrategyProduction))))
     = ''Kafka''
   \<and> Type (Storage (Spec (normalize exampleEnv emptyJaeger))) = ''memory''"
  apply (simp only: storage_type_fallback)
  apply code_simp
  done

text \<open>
  Claim C4. On the OpenShift platform, unless the ingress security was set to the
  explicit none, normalization sets the ingress security to OAuthProxy; in every other
  case it sets it to the explicit none. So the resolved value is one of the two.
\<close>

theorem ingress_security_resolved:
  "Security (Ingress (Spec (normalize e jaeger))) =
     (if viper e ''platform'' = FlagPlatformOpenShift e
         \<and> Security (Ingress (Spec jaeger)) \<noteq> IngressSecurityNoneExplicit
      then IngressSecurityOAuthProxy else IngressSecurityNoneExplicit)
   \<and> Security (Ingress (Spec (normalize e jaeger)))
       \<in> {IngressSecurityNoneExplicit, IngressSecurityOAuthProxy}"
  by (simp add: normalize_Spec normalizeSpec_Ingress normalizeSecurity_def)

theorem ingress_security_resolved_witness:
  "Security (Ingress (Spec (normalize exampleEnv emptyJaeger))) = IngressSecurityOAuthProxy
   \<and> Security (Ingress (Spec (normalize (exampleEnv\<lparr>viper := (\<lambda>k. [])\<rparr>) emptyJaeger)))
       = IngressSecurityNoneExplicit"
  apply (simp only: ingress_security_resolved [THEN conjunct1])
  apply code_simp
  done

text \<open>
  Claim C5. A value that the UI options hold before normalization under
  \<open>archiveEnabled\<close>, under \<open>menuEnabled\<close> inside the \<open>dependencies\<close> table, or under
  \<open>menu\<close> is the value they hold after normalization, for every configuration and every
  other field of the input.
\<close>

theorem explicit_ui_settings_preserved:
  "(fmlookup (loadUIOptions (Spec jaeger)) ''archiveEnabled'' = Some a
      \<longrightarrow> fmlookup (loadUIOptions (Spec (normalize e jaeger))) ''archiveEnabled'' = Some a)
   \<and> (fmlookup (loadUIOptions (Spec jaeger)) ''dependencies'' = Some (UMap deps)
        \<and> fmlookup deps ''menuEnabled'' = Some b
      \<longrightarrow> fmlookup (loadUIOptions (Spec (normalize e jaeger))) ''dependencies'' = Some (UMap deps))
   \<and> (fmlookup (loadUIOptions (Spec jaeger)) ''menu'' = Some c
      \<longrightarrow> fmlookup (loadUIOptions (Spec (normalize e jaeger))) ''menu'' = Some c)"
  by (simp add: normalize_Spec loadUIOptions_normalizeSpec lookup_enableLogOut
      lookup_disableDependenciesTab lookup_disableDependenciesTab_other
      lookup_enableArchiveButton)

theorem explicit_ui_settings_preserved_witness:
  "fmlookup (loadUIOptions (Spec explicitUIJaeger)) ''archiveEnabled'' = Some (UBool False)
   \<and> fmlookup (loadUIOptions (Spec (normalize exampleEnv explicitUIJaeger))) ''archiveEnabled''
       = Some (UBool False)
   \<and> fmlookup (loadUIOptions (Spec explicitUIJaeger)) ''dependencies''
       = Some (UMap (fmap_of_list [(''menuEnabled'', UBool True)]))
   \<and> fmlookup (loadUIOptions (Spec (normalize exampleEnv explicitUIJaeger))) ''dependencies''
       = Some (UMap (fmap_of_list [(''menuEnabled'', UBool True)]))
   \<and> fmlookup (loadUIOptions (Spec explicitUIJaeger)) ''menu'' = Some (UArray [])
   \<and> fmlookup (loadUIOptions (Spec (normalize exampleEnv explicitUIJaeger))) ''menu''
       = Some (UArray [])"
proof -
  have h1: "fmlookup (loadUIOptions (Spec explicitUIJaeger)) ''archiveEnabled'' = Some (UBool False)"
    by code_simp
  have h2: "fmlookup (loadUIOptions (Spec explicitUIJaeger)) ''dependencies''
              = Some (UMap (fmap_of_list [(''menuEnabled'', UBool True)]))"
    by code_simp
  have h3: "fmlookup (fmap_of_list [(''menuEnabled'', UBool True)]) ''menuEnabled'' = Some (UBool True)"
    by code_simp
  have h4: "fmlookup (loadUIOptions (Spec explicitUIJaeger)) ''menu'' = Some (UArray [])"
    by code_simp
  from h1 h2 h3 h4
    explicit_ui_settings_preserved
      [where jaeger = explicitUIJaeger and e = exampleEnv and a = "UBool False"
         and deps = "fmap_of_list [(''menuEnabled'', UBool True)]" and b = "UBool True"
         and c = "UArray []"]
  show ?thesis by blast
qed

text \<open>
  Claim C6. \<open>normalizeSparkDependencies\<close> sets the enabled flag of the dependencies job
  to true exactly when the backend supports the job, the flag is unset, no Elasticsearch
  deployment is to be provisioned for the storage section, and TLS is not configured:
  the option \<open>es.tls\<close> and the option \<open>es.tls.skip-host-verify\<close> do not fold to
  \<open>true\<close> and the option \<open>es.tls.ca\<close> is empty. Otherwise the flag stays as it was.
\<close>

theorem spark_dependencies_auto_enable:
  "dep_Enabled (Dependencies (normalizeSparkDependencies e spec)) =
     (if SupportedStorage e (Type spec)
         \<and> dep_Enabled (Dependencies spec) = None
         \<and> \<not> ShouldDeployElasticsearch e spec
         \<and> \<not> EqualFold (mapGet (Options spec) ''es.tls'') ''true''
         \<and> \<not> EqualFold (mapGet (Options spec) ''es.tls.skip-host-verify'') ''true''
         \<and> mapGet (Options spec) ''es.tls.ca'' = []
      then Some True else dep_Enabled (Dependencies spec))"
  by (simp add: normalizeSparkDependencies_def tlsIsNotEnabled_def Map_of_Options_def Let_def
      EqualFold_Nil)

theorem spark_dependencies_auto_enable_witness:
  "dep_Enabled (Dependencies (normalizeSparkDependencies exampleEnv
       (Storage (Spec (jaegerOf ''cassandra'' DeploymentStrategyProduction))))) = Some True
   \<and> dep_Enabled (Dependencies (normalizeSparkDependencies exampleEnv
       ((Storage (Spec (jaegerOf ''cassandra'' DeploymentStrategyProduction)))
          \<lparr>Options := fmap_of_list [(''es.tls'', ''TRUE'')]\<rparr>))) = None
   \<and> dep_Enabled (Dependencies (normalizeSparkDependencies exampleEnv
       (Storage (Spec (jaegerOf ''elasticsearch'' DeploymentStrategyProduction))))) = None"
  apply (simp only: spark_dependencies_auto_enable)
  apply code_simp
  done

text \<open>
  Claim C7, as the code has it. The \<open>dependencies\<close> entry of the UI options after
  normalization: an entry that is not a table stays as it is; a table that has
  \<open>menuEnabled\<close> stays as it is; otherwise (no entry, or a table without the key) the
  key stays unset when the resolved storage type folds to \<open>memory\<close> or the enabled
  flag of the dependencies job is true after \<open>normalizeSparkDependencies\<close> has run
  (set in the input, or switched on by that stage), and \<open>menuEnabled\<close> is written as
  false in every remaining case.
\<close>

theorem dependencies_menuEnabled_derivation:
  "fmlookup (loadUIOptions (Spec (normalize e jaeger))) ''dependencies'' =
     (case fmlookup (loadUIOptions (Spec jaeger)) ''dependencies'' of
        None \<Rightarrow>
          if EqualFold (Type (Storage (Spec (normalize e jaeger)))) ''memory''
             \<or> dep_Enabled (Dependencies (Storage (Spec (normalize e jaeger)))) = Some True
          then None else Some (UMap (fmupd ''menuEnabled'' (UBool False) fmempty))
      | Some (UMap deps) \<Rightarrow>
          if fmlookup deps ''menuEnabled'' = None
             \<and> \<not> (EqualFold (Type (Storage (Spec (normalize e jaeger)))) ''memory''
                  \<or> dep_Enabled (Dependencies (Storage (Spec (normalize e jaeger)))) = Some True)
          then Some (UMap (fmupd ''menuEnabled'' (UBool False) deps)) else Some (UMap deps)
      | Some v \<Rightarrow> Some v)"
  by (simp add: normalize_Spec loadUIOptions_normalizeSpec lookup_enableLogOut
      lookup_disableDependenciesTab lookup_enableArchiveButton
      split: option.split uival.split)

theorem dependencies_menuEnabled_derivation_witness:
  "fmlookup (loadUIOptions (Spec (normalize exampleEnv
       (jaegerOf ''kafka'' DeploymentStrategyStreaming)))) ''dependencies''
     = Some (UMap (fmupd ''menuEnabled'' (UBool False) fmempty))
   \<and> fmlookup (loadUIOptions (Spec (normalize exampleEnv emptyJaeger))) ''dependencies'' = None
   \<and> fmlookup (loadUIOptions (Spec (normalize exampleEnv explicitUIJaeger))) ''dependencies''
     = Some (UMap (fmap_of_list [(''menuEnabled'', UBool True)]))"
  apply (simp only: dependencies_menuEnabled_derivation)
  apply code_simp
  done

text \<open>
  Claim C7, as stated, has the key written as false whenever the storage is not the
  in-memory backend and the user did not enable the dependencies job. On Cassandra
  with the flag unset the job is switched on by \<open>normalizeSparkDependencies\<close>, and the
  key is not written.
\<close>

theorem dependencies_menuEnabled_counterexample:
  "\<not> (fmlookup (loadUIOptions (Spec (jaegerOf ''cassandra'' DeploymentStrategyProduction)))
         ''dependencies'' = None
       \<and> \<not> EqualFold (Type (Storage (Spec (normalize exampleEnv
               (jaegerOf ''cassandra'' DeploymentStrategyProduction))))) ''memory''
       \<and> dep_Enabled (Dependencies (Storage (Spec
               (jaegerOf ''cassandra'' DeploymentStrategyProduction)))) \<noteq> Some True
       \<longrightarrow> fmlookup (loadUIOptions (Spec (normalize exampleEnv
               (jaegerOf ''cassandra'' DeploymentStrategyProduction)))) ''dependencies''
             = Some (UMap (fmupd ''menuEnabled'' (UBool False) fmempty)))"
  by code_simp

text \<open>
  Claim C8. A node count of zero becomes 3. An unset redundancy policy becomes
  ZeroRedundancy when the node count, after that defaulting, is 1 and SingleRedundancy
  otherwise; a policy that is set stays. Absent resource requirements become a memory
  limit of 16Gi with requests of 16Gi of memory and 1 CPU; resource requirements that
  are present stay as they are, whatever they hold.
\<close>

theorem elasticsearch_defaults:
  "NodeCount (Elasticsearch (Storage (Spec (normalize e jaeger)))) =
     (if NodeCount (Elasticsearch (Storage (Spec jaeger))) = 0 then 3
      else NodeCount (Elasticsearch (Storage (Spec jaeger))))
   \<and> RedundancyPolicy (Elasticsearch (Storage (Spec (normalize e jaeger)))) =
     (if RedundancyPolicy (Elasticsearch (Storage (Spec jaeger))) = RedundancyPolicyUnset
      then (if NodeCount (Elasticsearch (Storage (Spec (normalize e jaeger)))) = 1
            then ZeroRedundancy else SingleRedundancy)
      else RedundancyPolicy (Elasticsearch (Storage (Spec jaeger))))
   \<and> Resources (Elasticsearch (Storage (Spec (normalize e jaeger)))) =
     (case Resources (Elasticsearch (Storage (Spec jaeger))) of
        None \<Rightarrow> Some \<lparr>Limits = fmupd ResourceMemory ''16Gi'' fmempty,
                       Requests = fmupd ResourceCPU ''1'' (fmupd ResourceMemory ''16Gi'' fmempty)\<rparr>
      | Some r \<Rightarrow> Some r)"
  by (simp add: normalize_Spec normalizeSpec_Elasticsearch normalizeElasticsearch_def Let_def
      defaultEsResources_def defaultEsMemory_def defaultEsCPURequest_def
      split: option.split)

theorem elasticsearch_defaults_witness:
  "NodeCount (Elasticsearch (Storage (Spec (normalize exampleEnv emptyJaeger)))) = 3
   \<and> RedundancyPolicy (Elasticsearch (Storage (Spec (normalize exampleEnv emptyJaeger))))
       = SingleRedundancy
   \<and> Resources (Elasticsearch (Storage (Spec (normalize exampleEnv emptyJaeger))))
       = Some \<lparr>Limits = fmupd ResourceMemory ''16Gi'' fmempty,
               Requests = fmupd ResourceCPU ''1'' (fmupd ResourceMemory ''16Gi'' fmempty)\<rparr>"
proof -
  have h1: "NodeCount (Elasticsearch (Storage (Spec emptyJaeger))) = 0" by code_simp
  have h2: "RedundancyPolicy (Elasticsearch (Storage (Spec emptyJaeger))) = RedundancyPolicyUnset"
    by code_simp
  have h3: "Resources (Elasticsearch (Storage (Spec emptyJaeger))) = None" by code_simp
  from elasticsearch_defaults [of exampleEnv emptyJaeger] show ?thesis
    by (simp add: h1 h2 h3)
qed

text \<open>
  Claim C10. The storage catalog is matched under case folding, the index cleaner is
  switched on by exact comparison. For an input whose storage type folds to
  \<open>elasticsearch\<close> without being that string, normalization keeps the type as the user
  wrote it (given that the catalog lists \<open>elasticsearch\<close>), and an unset enabled flag
  of the index cleaner stays unset.
\<close>

theorem index_cleaner_case_sensitive:
  assumes "EqualFold (Type (Storage (Spec jaeger))) ''elasticsearch''"
    and "Type (Storage (Spec jaeger)) \<noteq> ''elasticsearch''"
  shows "(''elasticsearch'' \<in> set (ValidTypes e)
            \<longrightarrow> Type (Storage (Spec (normalize e jaeger))) = Type (Storage (Spec jaeger)))
         \<and> (ic_Enabled (EsIndexCleaner (Storage (Spec jaeger))) = None
            \<longrightarrow> ic_Enabled (EsIndexCleaner (Storage (Spec (normalize e jaeger)))) = None)"
proof (intro conjI impI)
  have ne: "Type (Storage (Spec jaeger)) \<noteq> []"
    using assms(1) by (auto simp: EqualFold_def)
  {
    assume "''elasticsearch'' \<in> set (ValidTypes e)"
    then have "\<not> unknownStorage (ValidTypes e) (Type (Storage (Spec jaeger)))"
      using assms(1) by (rule EqualFold_catalog)
    then show "Type (Storage (Spec (normalize e jaeger))) = Type (Storage (Spec jaeger))"
      using ne by (simp add: normalize_Spec normalizeSpec_Type normalizeStorageType_cases)
  }
  have "normalizeStorageType e (Type (Storage (Spec jaeger))) \<noteq> ''elasticsearch''"
    using assms(2) by (simp add: normalizeStorageType_cases)
  moreover assume "ic_Enabled (EsIndexCleaner (Storage (Spec jaeger))) = None"
  ultimately show "ic_Enabled (EsIndexCleaner (Storage (Spec (normalize e jaeger)))) = None"
    by (simp add: normalize_Spec normalizeSpec_EsIndexCleaner normalizeIndexCleaner_Enabled)
qed

theorem index_cleaner_case_sensitive_witness:
  "EqualFold (Type (Storage (Spec (jaegerOf ''Elasticsearch'' DeploymentStrategyProduction))))
     ''elasticsearch''
   \<and> Type (Storage (Spec (jaegerOf ''Elasticsearch'' DeploymentStrategyProduction)))
       \<noteq> ''elasticsearch''
   \<and> Type (Storage (Spec (normalize exampleEnv
         (jaegerOf ''Elasticsearch'' DeploymentStrategyProduction)))) = ''Elasticsearch''
   \<and> ic_Enabled (EsIndexCleaner (Storage (Spec (normalize exampleEnv
         (jaegerOf ''Elasticsearch'' DeploymentStrategyProduction))))) = None"
proof -
  let ?j = "jaegerOf ''Elasticsearch'' DeploymentStrategyProduction"
  have h1: "EqualFold (Type (Storage (Spec ?j))) ''elasticsearch''" by code_simp
  have h2: "Type (Storage (Spec ?j)) \<noteq> ''elasticsearch''" by code_simp
  have h3: "''elasticsearch'' \<in> set (ValidTypes exampleEnv)" by code_simp
  have h4: "ic_Enabled (EsIndexCleaner (Storage (Spec ?j))) = None" by code_simp
  have h5: "Type (Storage (Spec ?j)) = ''Elasticsearch''" by code_simp
  show ?thesis
    using index_cleaner_case_sensitive [OF h1 h2, of exampleEnv] h1 h2 h3 h4 h5 by simp
qed

end
